theory Spec2Isabelle
  imports Complex_Main
begin

section \<open>The line-of-sight clearance script \<open>FirstQuestion.py\<close>\<close>

text \<open>
  The script reads \<open>deploy_data.txt\<close>, computes antenna heights from the Fresnel radius at
  every obstructing building, writes \<open>output.txt\<close> and prints the path loss.

  Conventions of the embedding.
  \<^item> Python \<open>int\<close> is \<open>int\<close>. Python \<open>float\<close> is \<open>real\<close>. In \<open>compute\<close> and in the run
    every operation is exact, so rounding, overflow, infinities and NaN are outside that
    model, and a statement about it is a statement about the real numbers that the
    floats approximate. Where a statement depends on the rounding, \<open>compute_fl\<close>
    computes the heights again with every result rounded to a double.
  \<^item> An uncaught exception is a value of \<open>error\<close>; a function that can raise returns
    \<open>error + 'a\<close>, and the whole run returns an \<open>outcome\<close> that records the exception,
    the content of \<open>output.txt\<close> (\<open>None\<close> while the file has not been opened) and
    what was printed.
  \<^item> \<open>float(s)\<close> is a parameter \<open>to_float\<close> of the reader (\<open>None\<close> is its
    \<open>ValueError\<close>); \<open>format(x, '.4f')\<close> is kept symbolic as the piece \<open>Fixed4 x\<close> of
    the file content and rendered by a parameter of \<open>render\<close>.
\<close>

subsection \<open>Exceptions\<close>

datatype error = IndexError | ValueError | ZeroDivisionError | OverflowError

definition bind :: "error + 'a \<Rightarrow> ('a \<Rightarrow> error + 'b) \<Rightarrow> error + 'b" where
  "bind m f = (case m of Inl e \<Rightarrow> Inl e | Inr x \<Rightarrow> f x)"

definition item :: "'a list \<Rightarrow> nat \<Rightarrow> error + 'a" where
  \<comment> \<open>\<open>xs[i]\<close> for an index that is never negative\<close>
  "item xs i = (if i < length xs then Inr (xs ! i) else Inl IndexError)"

subsection \<open>\<open>int(s)\<close> on a line of text\<close>

text \<open>
  A line of text is a list of code points below 256, one \<open>char\<close> each: \<open>CHR 0xA0\<close> is
  the no-break space U+00A0. Text with other code points is outside the model.

  \<open>int\<close> strips white space on both sides, takes an optional sign and then decimal
  digits, where single underscores may stand between digits. The white space that it
  strips is tab, line feed, vertical tab, form feed, carriage return and space, and of
  the code points from 128 on those that are white space, U+0085 and U+00A0; it does not
  strip the separators U+001C to U+001F. Below 256 the only decimal digits are \<open>0\<close> to
  \<open>9\<close>. The limit on the number of digits of recent interpreters is not modelled.
\<close>

definition is_space :: "char \<Rightarrow> bool" where
  "is_space c = (c \<in> set [CHR 0x09, CHR 0x0A, CHR 0x0B, CHR 0x0C, CHR 0x0D, CHR '' '',
                            CHR 0x85, CHR 0xA0])"

definition strip :: "string \<Rightarrow> string" where
  "strip s = rev (dropWhile is_space (rev (dropWhile is_space s)))"

definition is_digit :: "char \<Rightarrow> bool" where
  "is_digit c = (c \<in> set ''0123456789'')"

definition digit_val :: "char \<Rightarrow> nat" where
  "digit_val c = of_char c - 48"

fun digits :: "nat \<Rightarrow> bool \<Rightarrow> string \<Rightarrow> nat option" where
  "digits acc after_digit [] = (if after_digit then Some acc else None)"
| "digits acc after_digit (c # cs) =
     (if is_digit c then digits (10 * acc + digit_val c) True cs
      else if c = CHR ''_'' \<and> after_digit then digits acc False cs
      else None)"

definition py_int :: "string \<Rightarrow> int option" where
  "py_int s =
     (case strip s of
        [] \<Rightarrow> None
      | c # cs \<Rightarrow>
          if c = CHR ''-'' then map_option (\<lambda>n. - int n) (digits 0 False cs)
          else if c = CHR ''+'' then map_option int (digits 0 False cs)
          else map_option int (digits 0 False (c # cs)))"

definition to_int :: "string \<Rightarrow> error + int" where
  "to_int s = (case py_int s of None \<Rightarrow> Inl ValueError | Some n \<Rightarrow> Inr n)"

subsection \<open>Reading \<open>deploy_data.txt\<close>\<close>

record obstruction =
  D1 :: int
  Height :: int

record config =
  buildingA :: int
  buildingB :: int
  distanceBtw :: int
  transmissionFrequency :: real
  noOfBuilding :: int
  variables :: "obstruction list"

definition int_line :: "string list \<Rightarrow> nat \<Rightarrow> error + int" where
  \<comment> \<open>\<open>int(lines[i])\<close>\<close>
  "int_line lines i = bind (item lines i) to_int"

definition float_line :: "(string \<Rightarrow> real option) \<Rightarrow> string list \<Rightarrow> nat \<Rightarrow> error + real" where
  \<comment> \<open>\<open>float(lines[i])\<close>\<close>
  "float_line to_float lines i =
     bind (item lines i)
       (\<lambda>s. case to_float s of None \<Rightarrow> Inl ValueError | Some x \<Rightarrow> Inr x)"

definition range_pairs :: "int \<Rightarrow> nat list" where
  \<comment> \<open>\<open>range(5, 5+noOfBuilding*2, 2)\<close>: empty when the count is not positive\<close>
  "range_pairs n = map (\<lambda>k. 5 + 2 * k) [0..<nat n]"

definition range0 :: "int \<Rightarrow> nat list" where
  \<comment> \<open>\<open>range(0, noOfBuilding)\<close>\<close>
  "range0 n = [0..<nat n]"

fun read_variables :: "string list \<Rightarrow> nat list \<Rightarrow> error + obstruction list" where
  "read_variables lines [] = Inr []"
| "read_variables lines (i # is) =
     bind (int_line lines i) (\<lambda>d.
     bind (int_line lines (i + 1)) (\<lambda>h.
     bind (read_variables lines is) (\<lambda>vs.
     Inr (\<lparr>D1 = d, Height = h\<rparr> # vs))))"

definition read_config :: "(string \<Rightarrow> real option) \<Rightarrow> string list \<Rightarrow> error + config" where
  "read_config to_float lines =
     bind (int_line lines 0) (\<lambda>a.
     bind (int_line lines 1) (\<lambda>b.
     bind (int_line lines 2) (\<lambda>d.
     bind (float_line to_float lines 3) (\<lambda>f.
     bind (int_line lines 4) (\<lambda>n.
     bind (read_variables lines (range_pairs n)) (\<lambda>vs.
     Inr \<lparr>buildingA = a, buildingB = b, distanceBtw = d, transmissionFrequency = f,
          noOfBuilding = n, variables = vs\<rparr>))))))"

subsection \<open>The heights\<close>

definition waveLength :: "real \<Rightarrow> error + real" where
  \<comment> \<open>\<open>300000000/transmissionFrequency\<close>, the argument in Hz\<close>
  "waveLength hz = (if hz = 0 then Inl ZeroDivisionError else Inr (300000000 / hz))"

definition radius :: "real \<Rightarrow> int \<Rightarrow> int \<Rightarrow> error + real" where
  \<comment> \<open>\<open>math.sqrt((waveLength*D1*D2)/(D1 + D2))\<close>\<close>
  "radius wl d1 d2 =
     (if d1 + d2 = 0 then Inl ZeroDivisionError
      else let q = (wl * real_of_int d1 * real_of_int d2) / real_of_int (d1 + d2)
           in if q < 0 then Inl ValueError else Inr (sqrt q))"

record loop_state =
  LOStowerA :: real
  LOStowerAs :: "real list"
  nearLOStowerA :: real
  nearLOStowerAs :: "real list"

record towers = loop_state +
  LOStowerB :: real
  nearLOStowerB :: real

definition initial :: loop_state where
  "initial = \<lparr>LOStowerA = 0, LOStowerAs = [], nearLOStowerA = 0, nearLOStowerAs = []\<rparr>"

definition body :: "config \<Rightarrow> real \<Rightarrow> loop_state \<Rightarrow> nat \<Rightarrow> error + loop_state" where
  "body cfg wl s i =
     bind (item (variables cfg) i) (\<lambda>v.
     let D2 = distanceBtw cfg - D1 v in
     bind (radius wl (D1 v) D2) (\<lambda>r.
     let los = real_of_int (Height v - buildingA cfg) + 0.6 * r;
         near = real_of_int (Height v - buildingA cfg) + 0.4 * r
     in Inr \<lparr>LOStowerA = max (LOStowerA s) los,
             LOStowerAs = LOStowerAs s @ [los],
             nearLOStowerA = max (nearLOStowerA s) near,
             nearLOStowerAs = nearLOStowerAs s @ [near]\<rparr>))"

fun for_loop :: "config \<Rightarrow> real \<Rightarrow> loop_state \<Rightarrow> nat list \<Rightarrow> error + loop_state" where
  "for_loop cfg wl s [] = Inr s"
| "for_loop cfg wl s (i # is) = bind (body cfg wl s i) (\<lambda>s'. for_loop cfg wl s' is)"

definition compute :: "config \<Rightarrow> error + towers" where
  "compute cfg =
     bind (waveLength (transmissionFrequency cfg * 1000000)) (\<lambda>wl.
     bind (for_loop cfg wl initial (range0 (noOfBuilding cfg))) (\<lambda>s.
     Inr \<lparr>LOStowerA = LOStowerA s, LOStowerAs = LOStowerAs s,
          nearLOStowerA = nearLOStowerA s, nearLOStowerAs = nearLOStowerAs s,
          LOStowerB = real_of_int (buildingA cfg - buildingB cfg) + LOStowerA s,
          nearLOStowerB = real_of_int (buildingA cfg - buildingB cfg) + nearLOStowerA s\<rparr>))"

subsection \<open>Writing \<open>output.txt\<close> and printing the path loss\<close>

datatype piece = Text string | Fixed4 real

definition render :: "(real \<Rightarrow> string) \<Rightarrow> piece list \<Rightarrow> string" where
  "render fmt ps = concat (map (\<lambda>p. case p of Text s \<Rightarrow> s | Fixed4 x \<Rightarrow> fmt x) ps)"

record outcome =
  raised :: "error option"
  output_txt :: "piece list option"
  console :: "real list"

definition gap :: "real list \<Rightarrow> real \<Rightarrow> nat \<Rightarrow> error + real" where
  \<comment> \<open>\<open>LOStowerAs[i]- LOStowerA\<close>\<close>
  "gap xs m i = bind (item xs i) (\<lambda>x. Inr (x - m))"

fun write_gaps :: "real list \<Rightarrow> real \<Rightarrow> nat list \<Rightarrow> piece list \<Rightarrow> piece list \<times> error option" where
  \<comment> \<open>\<open>for i in range(0, noOfBuilding): f.write(format(xs[i]- m, '.4f')+" ")\<close>\<close>
  "write_gaps xs m [] f = (f, None)"
| "write_gaps xs m (i # is) f =
     (case gap xs m i of
        Inl e \<Rightarrow> (f, Some e)
      | Inr g \<Rightarrow> write_gaps xs m is (f @ [Fixed4 g, Text '' '']))"

definition attenuation :: "config \<Rightarrow> error + real" where
  \<comment> \<open>\<open>92.5 + 20*math.log10((transmissionFrequency*distanceBtw/1000000000)/1000)\<close>,
      the frequency already in Hz\<close>
  "attenuation cfg =
     (let x = (transmissionFrequency cfg * 1000000 * real_of_int (distanceBtw cfg)
                 / 1000000000) / 1000
      in if x \<le> 0 then Inl ValueError else Inr (92.5 + 20 * log 10 x))"

definition los_part :: "towers \<Rightarrow> piece list" where
  "los_part t =
     [Text ''solution is feasible for LOS\<newline>'',
      Text ''Antenna A height for LOS = '', Fixed4 (LOStowerA t), Text ''\<newline>'',
      Text ''Antenna B height for LOS = '', Fixed4 (LOStowerB t), Text ''\<newline>'',
      Text ''GAP for each building \<newline>'']"

definition near_part :: "towers \<Rightarrow> piece list" where
  "near_part t =
     [Text ''\<newline>'',
      Text ''solution is feasible for nearLOS\<newline>'',
      Text ''Antenna A height for NLOS = '', Fixed4 (nearLOStowerA t), Text ''\<newline>'',
      Text ''Antenna B height for NLOS = '', Fixed4 (nearLOStowerB t), Text ''\<newline>'',
      Text ''GAP for each building \<newline>'']"

definition write_output :: "config \<Rightarrow> towers \<Rightarrow> outcome" where
  "write_output cfg t =
     (case write_gaps (LOStowerAs t) (LOStowerA t) (range0 (noOfBuilding cfg)) (los_part t) of
        (f, Some e) \<Rightarrow> \<lparr>raised = Some e, output_txt = Some f, console = []\<rparr>
      | (f, None) \<Rightarrow>
     (case write_gaps (nearLOStowerAs t) (nearLOStowerA t) (range0 (noOfBuilding cfg))
             (f @ near_part t) of
        (f', Some e) \<Rightarrow> \<lparr>raised = Some e, output_txt = Some f', console = []\<rparr>
      | (f', None) \<Rightarrow>
     (case attenuation cfg of
        Inl e \<Rightarrow> \<lparr>raised = Some e, output_txt = Some f', console = []\<rparr>
      | Inr a \<Rightarrow> \<lparr>raised = None, output_txt = Some (f' @ [Text ''\<newline>'']), console = [a]\<rparr>)))"

definition failed :: "error \<Rightarrow> outcome" where
  \<comment> \<open>an exception before \<open>output.txt\<close> is opened\<close>
  "failed e = \<lparr>raised = Some e, output_txt = None, console = []\<rparr>"

definition run_config :: "config \<Rightarrow> outcome" where
  "run_config cfg = (case compute cfg of Inl e \<Rightarrow> failed e | Inr t \<Rightarrow> write_output cfg t)"

definition run :: "(string \<Rightarrow> real option) \<Rightarrow> string list \<Rightarrow> outcome" where
  "run to_float lines =
     (case read_config to_float lines of Inl e \<Rightarrow> failed e | Inr cfg \<Rightarrow> run_config cfg)"

subsection \<open>The heights in double precision\<close>




datatype halt = Raise error | Not_finite

definition bind_fl :: "halt + 'a \<Rightarrow> ('a \<Rightarrow> halt + 'b) \<Rightarrow> halt + 'b" where
  "bind_fl m f = (case m of Inl h \<Rightarrow> Inl h | Inr x \<Rightarrow> f x)"










section \<open>Notions used in the statements\<close>

text \<open>
  The inputs that the data model of the specification calls physically meaningful: every
  obstruction lies strictly between the two ends of the path. The definition adds what
  the script relies on besides: a positive frequency, and as many obstructions as the
  count announces (what \<open>read_config\<close> produces).
\<close>

definition valid_config :: "config \<Rightarrow> bool" where
  "valid_config cfg \<longleftrightarrow>
     0 < transmissionFrequency cfg \<and>
     length (variables cfg) = nat (noOfBuilding cfg) \<and>
     (\<forall>v \<in> set (variables cfg). 0 < D1 v \<and> D1 v < distanceBtw cfg)"

text \<open>
  The sample input that the script keeps in a comment, and the heights that the script
  computes on it (\<open>compute_example\<close> below).
\<close>

definition example_cfg :: config where
  "example_cfg =
     \<lparr>buildingA = 20, buildingB = 15, distanceBtw = 2000, transmissionFrequency = 2400,
      noOfBuilding = 4,
      variables = [\<lparr>D1 = 300, Height = 18\<rparr>, \<lparr>D1 = 600, Height = 19\<rparr>,
                   \<lparr>D1 = 1200, Height = 21\<rparr>, \<lparr>D1 = 1600, Height = 22\<rparr>]\<rparr>"

definition example_towers :: towers where
  "example_towers =
     \<lparr>LOStowerA = 2 + 0.6 * sqrt 40,
      LOStowerAs = [- 2 + 0.6 * sqrt (255 / 8), - 1 + 0.6 * sqrt (105 / 2),
                    1 + 0.6 * sqrt 60, 2 + 0.6 * sqrt 40],
      nearLOStowerA = 2 + 0.4 * sqrt 40,
      nearLOStowerAs = [- 2 + 0.4 * sqrt (255 / 8), - 1 + 0.4 * sqrt (105 / 2),
                        1 + 0.4 * sqrt 60, 2 + 0.4 * sqrt 40],
      LOStowerB = 5 + (2 + 0.6 * sqrt 40),
      nearLOStowerB = 5 + (2 + 0.4 * sqrt 40)\<rparr>"

text \<open>An obstruction that is lower than building A by more than its clearance.\<close>

definition low_cfg :: config where
  "low_cfg =
     \<lparr>buildingA = 20, buildingB = 15, distanceBtw = 2000, transmissionFrequency = 2400,
      noOfBuilding = 1, variables = [\<lparr>D1 = 1000, Height = 10\<rparr>]\<rparr>"

definition low_towers :: towers where
  "low_towers =
     \<lparr>LOStowerA = 0, LOStowerAs = [- 10 + 0.6 * sqrt (125 / 2)],
      nearLOStowerA = 0, nearLOStowerAs = [- 10 + 0.4 * sqrt (125 / 2)],
      LOStowerB = 5, nearLOStowerB = 5\<rparr>"


text \<open>
  The layout of \<open>output.txt\<close> as the specification gives it: the LOS block, the LOS gaps
  in the order of the obstructions, the near-LOS block, the near-LOS gaps, a line break.
\<close>

definition gap_pieces :: "real list \<Rightarrow> real \<Rightarrow> piece list" where
  "gap_pieces xs m = concat (map (\<lambda>x. [Fixed4 (x - m), Text '' '']) xs)"

definition report :: "towers \<Rightarrow> piece list" where
  "report t =
     los_part t @ gap_pieces (LOStowerAs t) (LOStowerA t) @
     near_part t @ gap_pieces (nearLOStowerAs t) (nearLOStowerA t) @ [Text ''\<newline>'']"

text \<open>The path loss as the specification gives it, the frequency in MHz.\<close>

definition path_loss :: "config \<Rightarrow> real" where
  "path_loss cfg =
     92.5 + 20 * log 10 ((transmissionFrequency cfg * 1000000 * real_of_int (distanceBtw cfg)
                            / 1000000000) / 1000)"

text \<open>
  \<open>float\<close> on the lines that are integer numerals, where its value is the integer; it
  stands for \<open>to_float\<close> when an input file is run below.
\<close>

definition float_of_int_literal :: "string \<Rightarrow> real option" where
  "float_of_int_literal s = map_option real_of_int (py_int s)"

text \<open>The heights when there is no obstruction, for buildings of heights \<open>a\<close> and \<open>b\<close>.\<close>

definition no_obstruction_towers :: "int \<Rightarrow> int \<Rightarrow> towers" where
  "no_obstruction_towers a b =
     \<lparr>LOStowerA = 0, LOStowerAs = [], nearLOStowerA = 0, nearLOStowerAs = [],
      LOStowerB = real_of_int (a - b), nearLOStowerB = real_of_int (a - b)\<rparr>"










text \<open>
  \<open>float\<close> on the lines that are decimal numerals without exponent, an optional sign and
  digits around an optional point, where its value in exact arithmetic is the number the
  numeral denotes. It stands for \<open>to_float\<close> when the input files below are run;
  \<open>float\<close> accepts more (exponents, \<open>inf\<close>, \<open>nan\<close>), which these files do not use.
\<close>

definition digit_count :: "string \<Rightarrow> nat" where
  "digit_count s = length (filter is_digit s)"

definition unsigned_decimal :: "string \<Rightarrow> real option" where
  "unsigned_decimal s =
     (let ip = takeWhile (\<lambda>c. c \<noteq> CHR ''.'') s; rest = dropWhile (\<lambda>c. c \<noteq> CHR ''.'') s
      in case rest of
           [] \<Rightarrow> map_option real (digits 0 False ip)
         | _ # fp \<Rightarrow>
             if fp = [] then map_option real (digits 0 False ip)
             else (case digits 0 False fp of
                     None \<Rightarrow> None
                   | Some f \<Rightarrow>
                       if ip = [] then Some (real f / 10 ^ digit_count fp)
                       else map_option (\<lambda>i. real i + real f / 10 ^ digit_count fp)
                              (digits 0 False ip)))"

definition float_of_decimal :: "string \<Rightarrow> real option" where
  "float_of_decimal s =
     (case strip s of
        [] \<Rightarrow> None
      | c # cs \<Rightarrow>
          if c = CHR ''-'' then map_option uminus (unsigned_decimal cs)
          else if c = CHR ''+'' then unsigned_decimal cs
          else unsigned_decimal (c # cs))"

text \<open>
  Input files, every line with its line break: one obstruction and a frequency that is
  not an integer; the same with an obstruction distance that is not an integer.
\<close>

definition good_lines :: "string list" where
  "good_lines = [''20\<newline>'', ''15\<newline>'', ''2000\<newline>'', ''2400.5\<newline>'', ''1\<newline>'',
                 ''300\<newline>'', ''18\<newline>'']"

definition bad_lines :: "string list" where
  "bad_lines = [''20\<newline>'', ''15\<newline>'', ''2000\<newline>'', ''2400.5\<newline>'', ''1\<newline>'',
                ''300.5\<newline>'', ''18\<newline>'']"

definition good_cfg :: config where
  "good_cfg =
     \<lparr>buildingA = 20, buildingB = 15, distanceBtw = 2000, transmissionFrequency = 2400.5,
      noOfBuilding = 1, variables = [\<lparr>D1 = 300, Height = 18\<rparr>]\<rparr>"

section \<open>Properties of the model\<close>

subsection \<open>The loop over the obstructions\<close>

lemma bind_Inl [simp]: "bind (Inl e) f = Inl e"
  by (simp add: bind_def)

lemma bind_Inr [simp]: "bind (Inr x) f = f x"
  by (simp add: bind_def)

lemma bind_eq_Inr: "bind m f = Inr y \<longleftrightarrow> (\<exists>x. m = Inr x \<and> f x = Inr y)"
  by (cases m) simp_all

lemma radius_nonneg: "radius wl d1 d2 = Inr r \<Longrightarrow> 0 \<le> r"
  by (auto simp: radius_def Let_def split: if_splits)


lemma body_Inr:
  assumes "body cfg wl s i = Inr s'"
  obtains los near where
    "LOStowerA s' = max (LOStowerA s) los" "LOStowerAs s' = LOStowerAs s @ [los]"
    "nearLOStowerA s' = max (nearLOStowerA s) near" "nearLOStowerAs s' = nearLOStowerAs s @ [near]"
    "near \<le> los"
proof -
  from assms obtain v r where v: "item (variables cfg) i = Inr v"
    and r: "radius wl (D1 v) (distanceBtw cfg - D1 v) = Inr r"
    and s': "s' = \<lparr>LOStowerA = max (LOStowerA s) (real_of_int (Height v - buildingA cfg) + 0.6 * r),
             LOStowerAs = LOStowerAs s @ [real_of_int (Height v - buildingA cfg) + 0.6 * r],
             nearLOStowerA = max (nearLOStowerA s) (real_of_int (Height v - buildingA cfg) + 0.4 * r),
             nearLOStowerAs = nearLOStowerAs s @ [real_of_int (Height v - buildingA cfg) + 0.4 * r]\<rparr>"
    by (auto simp: body_def bind_eq_Inr Let_def)
  from r have "0 \<le> r" by (rule radius_nonneg)
  then have "real_of_int (Height v - buildingA cfg) + 0.4 * r
      \<le> real_of_int (Height v - buildingA cfg) + 0.6 * r"
    by simp
  with s' show thesis
    by (intro that [of "real_of_int (Height v - buildingA cfg) + 0.6 * r"
          "real_of_int (Height v - buildingA cfg) + 0.4 * r"]) simp_all
qed

lemma for_loop_invariant:
  assumes "for_loop cfg wl s is = Inr s'" and "P s"
    and step: "\<And>s i s'. P s \<Longrightarrow> body cfg wl s i = Inr s' \<Longrightarrow> P s'"
  shows "P s'"
  using assms(1,2)
proof (induction "is" arbitrary: s)
  case Nil
  then show ?case by simp
next
  case (Cons i "is")
  from Cons.prems(1) obtain s1 where b: "body cfg wl s i = Inr s1"
    and l: "for_loop cfg wl s1 is = Inr s'"
    by (auto simp: bind_eq_Inr)
  from step [OF Cons.prems(2) b] have "P s1" .
  with l show ?case by (rule Cons.IH)
qed

lemma for_loop_nonneg:
  assumes "for_loop cfg wl s is = Inr s'" and "0 \<le> LOStowerA s \<and> 0 \<le> nearLOStowerA s"
  shows "0 \<le> LOStowerA s' \<and> 0 \<le> nearLOStowerA s'"
  using assms
proof (rule for_loop_invariant)
  fix s i s'
  assume "0 \<le> LOStowerA s \<and> 0 \<le> nearLOStowerA s" and "body cfg wl s i = Inr s'"
  then show "0 \<le> LOStowerA s' \<and> 0 \<le> nearLOStowerA s'"
    by (elim body_Inr) (simp add: le_max_iff_disj)
qed

lemma for_loop_order:
  assumes "for_loop cfg wl s is = Inr s'" and "nearLOStowerA s \<le> LOStowerA s"
  shows "nearLOStowerA s' \<le> LOStowerA s'"
  using assms
proof (rule for_loop_invariant)
  fix s i s'
  assume "nearLOStowerA s \<le> LOStowerA s" and "body cfg wl s i = Inr s'"
  then show "nearLOStowerA s' \<le> LOStowerA s'"
    by (elim body_Inr) (auto simp: le_max_iff_disj)
qed

lemma for_loop_upper:
  assumes "for_loop cfg wl s is = Inr s'" and "\<forall>x\<in>set (LOStowerAs s). x \<le> LOStowerA s"
  shows "\<forall>x\<in>set (LOStowerAs s'). x \<le> LOStowerA s'"
  using assms
proof (rule for_loop_invariant)
  fix s i s'
  assume "\<forall>x\<in>set (LOStowerAs s). x \<le> LOStowerA s" and "body cfg wl s i = Inr s'"
  then show "\<forall>x\<in>set (LOStowerAs s'). x \<le> LOStowerA s'"
    by (elim body_Inr) (auto simp: le_max_iff_disj)
qed

lemma for_loop_attained:
  assumes "for_loop cfg wl s is = Inr s'" and "LOStowerA s \<in> insert 0 (set (LOStowerAs s))"
  shows "LOStowerA s' \<in> insert 0 (set (LOStowerAs s'))"
  using assms
proof (rule for_loop_invariant)
  fix s i s'
  assume "LOStowerA s \<in> insert 0 (set (LOStowerAs s))" and "body cfg wl s i = Inr s'"
  then show "LOStowerA s' \<in> insert 0 (set (LOStowerAs s'))"
    by (elim body_Inr) (auto simp: max_def)
qed

lemma for_loop_length:
  "for_loop cfg wl s is = Inr s' \<Longrightarrow>
     length (LOStowerAs s') = length (LOStowerAs s) + length is \<and>
     length (nearLOStowerAs s') = length (nearLOStowerAs s) + length is"
proof (induction "is" arbitrary: s)
  case Nil
  then show ?case by simp
next
  case (Cons i "is")
  from Cons.prems obtain s1 where b: "body cfg wl s i = Inr s1"
    and l: "for_loop cfg wl s1 is = Inr s'"
    by (auto simp: bind_eq_Inr)
  from b have "length (LOStowerAs s1) = Suc (length (LOStowerAs s))"
    and "length (nearLOStowerAs s1) = Suc (length (nearLOStowerAs s))"
    by (auto elim: body_Inr)
  with Cons.IH [OF l] show ?case by simp
qed

lemma compute_Inr:
  assumes "compute cfg = Inr t"
  obtains wl s where "waveLength (transmissionFrequency cfg * 1000000) = Inr wl"
    and "for_loop cfg wl initial (range0 (noOfBuilding cfg)) = Inr s"
    and "LOStowerA t = LOStowerA s" and "LOStowerAs t = LOStowerAs s"
    and "nearLOStowerA t = nearLOStowerA s" and "nearLOStowerAs t = nearLOStowerAs s"
    and "LOStowerB t = real_of_int (buildingA cfg - buildingB cfg) + LOStowerA s"
    and "nearLOStowerB t = real_of_int (buildingA cfg - buildingB cfg) + nearLOStowerA s"
  using assms by (auto simp: compute_def bind_eq_Inr)

lemma radius_succeeds:
  assumes "0 < wl" "0 < d1" "d1 < d"
  shows "\<exists>r. radius wl d1 (d - d1) = Inr r"
proof -
  have "0 \<le> wl * real_of_int d1 * real_of_int (d - d1) / real_of_int d"
    using assms by simp
  moreover have "d \<noteq> 0" using assms by simp
  ultimately show ?thesis
    by (simp add: radius_def Let_def not_less [symmetric])
qed

lemma body_succeeds:
  assumes "0 < wl" "i < length (variables cfg)"
    "0 < D1 (variables cfg ! i)" "D1 (variables cfg ! i) < distanceBtw cfg"
  shows "\<exists>s'. body cfg wl s i = Inr s'"
proof -
  from radius_succeeds [OF assms(1,3,4)] obtain r
    where "radius wl (D1 (variables cfg ! i)) (distanceBtw cfg - D1 (variables cfg ! i)) = Inr r" ..
  with assms(2) show ?thesis
    by (simp add: body_def item_def Let_def)
qed

lemma for_loop_succeeds:
  "(\<And>i s. i \<in> set is \<Longrightarrow> \<exists>s'. body cfg wl s i = Inr s') \<Longrightarrow> \<exists>s'. for_loop cfg wl s is = Inr s'"
proof (induction "is" arbitrary: s)
  case Nil
  show ?case by simp
next
  case (Cons i "is")
  from Cons.prems [of i s] obtain s1 where "body cfg wl s i = Inr s1" by auto
  moreover from Cons.IH [of s1] Cons.prems obtain s' where "for_loop cfg wl s1 is = Inr s'"
    by auto
  ultimately show ?case by simp
qed

lemma compute_succeeds:
  assumes "valid_config cfg"
  shows "\<exists>t. compute cfg = Inr t"
proof -
  let ?wl = "300000000 / (transmissionFrequency cfg * 1000000)"
  from assms have f: "0 < transmissionFrequency cfg"
    and n: "length (variables cfg) = nat (noOfBuilding cfg)"
    and v: "\<And>v. v \<in> set (variables cfg) \<Longrightarrow> 0 < D1 v \<and> D1 v < distanceBtw cfg"
    by (simp_all add: valid_config_def)
  from f have wl: "waveLength (transmissionFrequency cfg * 1000000) = Inr ?wl" and pos: "0 < ?wl"
    by (simp_all add: waveLength_def)
  have "\<exists>s'. body cfg ?wl s i = Inr s'" if "i \<in> set (range0 (noOfBuilding cfg))" for i s
  proof -
    from that n have i: "i < length (variables cfg)" by (simp add: range0_def)
    then have "variables cfg ! i \<in> set (variables cfg)" by simp
    from v [OF this] pos i show ?thesis by (intro body_succeeds) simp_all
  qed
  then obtain s where "for_loop cfg ?wl initial (range0 (noOfBuilding cfg)) = Inr s"
    using for_loop_succeeds [of "range0 (noOfBuilding cfg)" cfg ?wl initial] by blast
  with wl show ?thesis by (simp add: compute_def)
qed

lemma compute_nonneg:
  assumes "compute cfg = Inr t"
  shows "0 \<le> LOStowerA t \<and> 0 \<le> nearLOStowerA t"
proof -
  from assms obtain wl s where l: "for_loop cfg wl initial (range0 (noOfBuilding cfg)) = Inr s"
    and eq: "LOStowerA t = LOStowerA s" "nearLOStowerA t = nearLOStowerA s"
    by (rule compute_Inr)
  from for_loop_nonneg [OF l] eq show ?thesis by (simp add: initial_def)
qed

lemma compute_order:
  assumes "compute cfg = Inr t"
  shows "nearLOStowerA t \<le> LOStowerA t"
proof -
  from assms obtain wl s where l: "for_loop cfg wl initial (range0 (noOfBuilding cfg)) = Inr s"
    and eq: "LOStowerA t = LOStowerA s" "nearLOStowerA t = nearLOStowerA s"
    by (rule compute_Inr)
  from for_loop_order [OF l] eq show ?thesis by (simp add: initial_def)
qed

lemma compute_length:
  assumes "compute cfg = Inr t"
  shows "length (LOStowerAs t) = nat (noOfBuilding cfg) \<and>
         length (nearLOStowerAs t) = nat (noOfBuilding cfg)"
proof -
  from assms obtain wl s where l: "for_loop cfg wl initial (range0 (noOfBuilding cfg)) = Inr s"
    and eq: "LOStowerAs t = LOStowerAs s" "nearLOStowerAs t = nearLOStowerAs s"
    by (rule compute_Inr)
  from for_loop_length [OF l] eq show ?thesis by (simp add: initial_def range0_def)
qed

lemma compute_upper:
  assumes "compute cfg = Inr t"
  shows "\<forall>x\<in>set (LOStowerAs t). x \<le> LOStowerA t"
proof -
  from assms obtain wl s where l: "for_loop cfg wl initial (range0 (noOfBuilding cfg)) = Inr s"
    and eq: "LOStowerA t = LOStowerA s" "LOStowerAs t = LOStowerAs s"
    by (rule compute_Inr)
  from for_loop_upper [OF l] eq show ?thesis by (simp add: initial_def)
qed

lemma compute_attained:
  assumes "compute cfg = Inr t"
  shows "LOStowerA t \<in> insert 0 (set (LOStowerAs t))"
proof -
  from assms obtain wl s where l: "for_loop cfg wl initial (range0 (noOfBuilding cfg)) = Inr s"
    and eq: "LOStowerA t = LOStowerA s" "LOStowerAs t = LOStowerAs s"
    by (rule compute_Inr)
  from for_loop_attained [OF l] eq show ?thesis by (simp add: initial_def)
qed

subsection \<open>The sample inputs\<close>

lemma waveLength_example: "waveLength (transmissionFrequency example_cfg * 1000000) = Inr (1 / 8)"
  by (simp add: waveLength_def example_cfg_def)

lemma range0_4: "range0 4 = [0, 1, 2, 3]"
  by code_simp

lemma sqrt_40_bounds: "6.324555 \<le> sqrt 40" "sqrt 40 \<le> 6.32456"
proof -
  show "6.324555 \<le> sqrt 40" by (rule real_le_rsqrt) (simp add: power2_eq_square)
  show "sqrt 40 \<le> 6.32456" by (rule real_le_lsqrt) (simp_all add: power2_eq_square)
qed

lemma sqrt_others: "sqrt (255 / 8) \<le> 6" "sqrt (105 / 2) \<le> 8" "sqrt 60 \<le> 7.75"
proof -
  show "sqrt (255 / 8) \<le> 6" by (rule real_le_lsqrt) simp_all
  show "sqrt (105 / 2) \<le> 8" by (rule real_le_lsqrt) simp_all
  show "sqrt 60 \<le> 7.75" by (rule real_le_lsqrt) (simp_all add: power2_eq_square)
qed

lemma example_max_los:
  "max (max (max (max 0 (- 2 + 0.6 * sqrt (255 / 8))) (- 1 + 0.6 * sqrt (105 / 2)))
      (1 + 0.6 * sqrt 60)) (2 + 0.6 * sqrt 40) = 2 + 0.6 * sqrt 40"
  using sqrt_40_bounds sqrt_others by (intro max_absorb2) simp

lemma example_max_near:
  "max (max (max (max 0 (- 2 + 0.4 * sqrt (255 / 8))) (- 1 + 0.4 * sqrt (105 / 2)))
      (1 + 0.4 * sqrt 60)) (2 + 0.4 * sqrt 40) = 2 + 0.4 * sqrt 40"
  using sqrt_40_bounds sqrt_others by (intro max_absorb2) simp

lemma example_loop:
  "for_loop example_cfg (1 / 8) initial [0, 1, 2, 3] =
     Inr \<lparr>LOStowerA = max (max (max (max 0 (- 2 + 0.6 * sqrt (255 / 8))) (- 1 + 0.6 * sqrt (105 / 2)))
              (1 + 0.6 * sqrt 60)) (2 + 0.6 * sqrt 40),
      LOStowerAs = [- 2 + 0.6 * sqrt (255 / 8), - 1 + 0.6 * sqrt (105 / 2),
                    1 + 0.6 * sqrt 60, 2 + 0.6 * sqrt 40],
      nearLOStowerA = max (max (max (max 0 (- 2 + 0.4 * sqrt (255 / 8))) (- 1 + 0.4 * sqrt (105 / 2)))
              (1 + 0.4 * sqrt 60)) (2 + 0.4 * sqrt 40),
      nearLOStowerAs = [- 2 + 0.4 * sqrt (255 / 8), - 1 + 0.4 * sqrt (105 / 2),
                        1 + 0.4 * sqrt 60, 2 + 0.4 * sqrt 40]\<rparr>"
  by (simp add: body_def item_def example_cfg_def radius_def initial_def Let_def)

lemma compute_example: "compute example_cfg = Inr example_towers"
proof -
  have n: "noOfBuilding example_cfg = 4" "buildingA example_cfg = 20" "buildingB example_cfg = 15"
    by (simp_all add: example_cfg_def)
  have loop: "for_loop example_cfg (1 / 8) initial (range0 4) =
      Inr \<lparr>LOStowerA = 2 + 0.6 * sqrt 40, LOStowerAs = LOStowerAs example_towers,
           nearLOStowerA = 2 + 0.4 * sqrt 40, nearLOStowerAs = nearLOStowerAs example_towers\<rparr>"
    by (simp only: range0_4 example_loop example_max_los example_max_near)
       (simp add: example_towers_def)
  show ?thesis
    by (simp add: compute_def waveLength_example n loop) (simp add: example_towers_def)
qed

lemma valid_example: "valid_config example_cfg"
  by (simp add: valid_config_def example_cfg_def)

lemma radius_example: "radius (1 / 8) 1600 (distanceBtw example_cfg - 1600) = Inr (sqrt 40)"
  by (simp add: radius_def example_cfg_def)

lemma range0_1: "range0 1 = [0]"
  by code_simp

lemma sqrt_125_2: "sqrt (125 / 2) \<le> 8"
  by (rule real_le_lsqrt) simp_all

lemma compute_low: "compute low_cfg = Inr low_towers"
proof -
  have wl: "waveLength (transmissionFrequency low_cfg * 1000000) = Inr (1 / 8)"
    by (simp add: waveLength_def low_cfg_def)
  have n: "noOfBuilding low_cfg = 1" "buildingA low_cfg = 20" "buildingB low_cfg = 15"
    by (simp_all add: low_cfg_def)
  have "max 0 (- 10 + 0.6 * sqrt (125 / 2)) = 0" "max 0 (- 10 + 0.4 * sqrt (125 / 2)) = 0"
    using sqrt_125_2 by (simp_all add: max_def)
  then have loop: "for_loop low_cfg (1 / 8) initial (range0 1) =
      Inr \<lparr>LOStowerA = 0, LOStowerAs = LOStowerAs low_towers,
           nearLOStowerA = 0, nearLOStowerAs = nearLOStowerAs low_towers\<rparr>"
    by (simp add: range0_1 body_def item_def low_cfg_def radius_def initial_def Let_def
        low_towers_def)
  show ?thesis
    by (simp add: compute_def wl n loop) (simp add: low_towers_def)
qed

lemma gap_Inr: "i < length xs \<Longrightarrow> gap xs m i = Inr (xs ! i - m)"
  by (simp add: gap_def item_def)


subsection \<open>Writing the report\<close>

lemma write_gaps_indices:
  "\<forall>i \<in> set is. i < length xs \<Longrightarrow>
     write_gaps xs m is f = (f @ concat (map (\<lambda>i. [Fixed4 (xs ! i - m), Text '' '']) is), None)"
  by (induction "is" arbitrary: f) (simp_all add: gap_Inr)

lemma write_gaps_range0:
  assumes "length xs = nat n"
  shows "write_gaps xs m (range0 n) f = (f @ gap_pieces xs m, None)"
proof -
  have "map (\<lambda>i. [Fixed4 (xs ! i - m), Text '' '']) [0..<length xs]
      = map (\<lambda>x. [Fixed4 (x - m), Text '' '']) (map ((!) xs) [0..<length xs])"
    by simp
  also have "\<dots> = map (\<lambda>x. [Fixed4 (x - m), Text '' '']) xs"
    by (simp only: map_nth)
  finally show ?thesis
    using assms write_gaps_indices [of "range0 n" xs m f]
    by (simp add: range0_def gap_pieces_def)
qed

lemma write_output_report:
  assumes "length (LOStowerAs t) = nat (noOfBuilding cfg)"
    and "length (nearLOStowerAs t) = nat (noOfBuilding cfg)"
  shows "write_output cfg t =
     (case attenuation cfg of
        Inl e \<Rightarrow> \<lparr>raised = Some e, output_txt = Some (butlast (report t)), console = []\<rparr>
      | Inr a \<Rightarrow> \<lparr>raised = None, output_txt = Some (report t), console = [a]\<rparr>)"
  by (simp add: write_output_def write_gaps_range0 [OF assms(1)] write_gaps_range0 [OF assms(2)]
      report_def butlast_append split: sum.splits)

lemma run_config_Inr:
  assumes "compute cfg = Inr t"
  shows "run_config cfg =
     (case attenuation cfg of
        Inl e \<Rightarrow> \<lparr>raised = Some e, output_txt = Some (butlast (report t)), console = []\<rparr>
      | Inr a \<Rightarrow> \<lparr>raised = None, output_txt = Some (report t), console = [a]\<rparr>)"
  using compute_length [OF assms] by (simp add: run_config_def assms write_output_report)

lemma attenuation_cases:
  "attenuation cfg = Inr (path_loss cfg) \<or> attenuation cfg = Inl ValueError"
  by (simp add: attenuation_def path_loss_def Let_def)

lemma attenuation_succeeds:
  "0 < transmissionFrequency cfg \<Longrightarrow> 0 < distanceBtw cfg \<Longrightarrow>
     attenuation cfg = Inr (path_loss cfg)"
  by (simp add: attenuation_def path_loss_def Let_def not_le)

subsection \<open>Reading the input\<close>

lemma int_line_Inr: "int_line lines i = Inr n \<longleftrightarrow> i < length lines \<and> py_int (lines ! i) = Some n"
  by (auto simp: int_line_def item_def to_int_def split: option.splits)

lemma int_line_ValueError:
  "i < length lines \<Longrightarrow> py_int (lines ! i) = None \<Longrightarrow> int_line lines i = Inl ValueError"
  by (simp add: int_line_def item_def to_int_def)

lemma int_line_in_range:
  "i < length lines \<Longrightarrow> int_line lines i = Inl ValueError \<or> (\<exists>n. int_line lines i = Inr n)"
  by (simp add: int_line_def item_def to_int_def split: option.splits)

lemma float_line_Inr:
  "float_line to_float lines i = Inr x \<longleftrightarrow> i < length lines \<and> to_float (lines ! i) = Some x"
  by (auto simp: float_line_def item_def split: option.splits)

lemma float_line_in_range:
  "i < length lines \<Longrightarrow>
     float_line to_float lines i = Inl ValueError \<or> (\<exists>x. float_line to_float lines i = Inr x)"
  by (simp add: float_line_def item_def split: option.splits)

lemma range_pairs_0: "range_pairs 0 = []"
  by (simp add: range_pairs_def)

lemma read_config_no_obstruction:
  assumes "int_line lines 0 = Inr a" "int_line lines 1 = Inr b" "int_line lines 2 = Inr d"
    "float_line to_float lines 3 = Inr f" "int_line lines 4 = Inr 0"
  shows "read_config to_float lines =
     Inr \<lparr>buildingA = a, buildingB = b, distanceBtw = d, transmissionFrequency = f,
          noOfBuilding = 0, variables = []\<rparr>"
  using assms by (simp add: read_config_def range_pairs_0)

lemma range0_0: "range0 0 = []"
  by (simp add: range0_def)

lemma compute_no_obstruction:
  assumes "noOfBuilding cfg = 0" "transmissionFrequency cfg \<noteq> 0"
  shows "compute cfg = Inr (no_obstruction_towers (buildingA cfg) (buildingB cfg))"
  using assms
  by (simp add: compute_def waveLength_def range0_0 initial_def no_obstruction_towers_def)

lemma report_no_obstruction:
  "report (no_obstruction_towers a b) =
     los_part (no_obstruction_towers a b) @ near_part (no_obstruction_towers a b) @ [Text ''\<newline>'']"
  by (simp add: report_def gap_pieces_def no_obstruction_towers_def)

lemma read_variables_Inr:
  "read_variables lines is = Inr vs \<Longrightarrow>
     length vs = length is \<and>
     (\<forall>j < length is.
        int_line lines (is ! j) = Inr (D1 (vs ! j)) \<and>
        int_line lines (is ! j + 1) = Inr (Height (vs ! j)))"
proof (induction "is" arbitrary: vs)
  case Nil
  then show ?case by simp
next
  case (Cons i "is")
  from Cons.prems obtain d h ws where d: "int_line lines i = Inr d"
    and h: "int_line lines (i + 1) = Inr h"
    and ws: "read_variables lines is = Inr ws"
    and vs: "vs = \<lparr>D1 = d, Height = h\<rparr> # ws"
    by (auto simp: bind_eq_Inr)
  from Cons.IH [OF ws] d h vs show ?case
    by (auto simp: nth_Cons split: nat.splits)
qed

lemma read_variables_ValueError:
  assumes "sorted is" "k < length lines" "py_int (lines ! k) = None"
    and "\<exists>i \<in> set is. k = i \<or> k = Suc i"
  shows "read_variables lines is = Inl ValueError"
  using assms(1,4)
proof (induction "is")
  case Nil
  then show ?case by simp
next
  case (Cons i "is")
  from Cons.prems have le: "i \<le> k" by auto
  show ?case
  proof (cases "int_line lines i")
    case (Inl e)
    with le assms(2) int_line_in_range [of i lines] show ?thesis by auto
  next
    case d: (Inr d)
    with assms(3) have "k \<noteq> i" by (auto simp: int_line_Inr)
    with Cons.prems have le': "Suc i \<le> k" by auto
    show ?thesis
    proof (cases "int_line lines (Suc i)")
      case (Inl e)
      with le' assms(2) int_line_in_range [of "Suc i" lines] d show ?thesis by auto
    next
      case h: (Inr h)
      with assms(3) have "k \<noteq> Suc i" by (auto simp: int_line_Inr)
      with \<open>k \<noteq> i\<close> Cons.prems have "\<exists>i \<in> set is. k = i \<or> k = Suc i" by auto
      moreover from Cons.prems(1) have "sorted is" by simp
      ultimately have "read_variables lines is = Inl ValueError" by (intro Cons.IH)
      with d h show ?thesis by simp
    qed
  qed
qed

lemma sorted_range_pairs: "sorted (range_pairs n)"
  by (simp add: range_pairs_def sorted_iff_nth_mono)

lemma range_pairs_covers:
  assumes "5 \<le> k" "int k < 5 + 2 * n"
  shows "\<exists>i \<in> set (range_pairs n). k = i \<or> k = Suc i"
proof -
  let ?j = "(k - 5) div 2"
  from assms have "?j < nat n" by linarith
  then have "5 + 2 * ?j \<in> set (range_pairs n)" by (simp add: range_pairs_def)
  moreover from assms(1) have "k = 5 + 2 * ?j \<or> k = Suc (5 + 2 * ?j)" by linarith
  ultimately show ?thesis by blast
qed

lemma read_config_Inr:
  assumes "read_config to_float lines = Inr cfg"
  shows "int_line lines 0 = Inr (buildingA cfg)" "int_line lines 1 = Inr (buildingB cfg)"
    "int_line lines 2 = Inr (distanceBtw cfg)"
    "float_line to_float lines 3 = Inr (transmissionFrequency cfg)"
    "int_line lines 4 = Inr (noOfBuilding cfg)"
    "read_variables lines (range_pairs (noOfBuilding cfg)) = Inr (variables cfg)"
  using assms by (auto simp: read_config_def bind_eq_Inr)

lemma read_config_header_ValueError:
  assumes "k < length lines" "py_int (lines ! k) = None" "k \<in> {0, 1, 2, 4}"
  shows "read_config to_float lines = Inl ValueError"
proof -
  have k: "int_line lines k = Inl ValueError"
    using assms(1,2) by (rule int_line_ValueError)
  have i: "int_line lines j = Inl ValueError \<or> (\<exists>n. int_line lines j = Inr n)" if "j \<le> k" for j
    using that assms(1) by (intro int_line_in_range) simp
  have f: "float_line to_float lines 3 = Inl ValueError \<or>
      (\<exists>x. float_line to_float lines 3 = Inr x)" if "3 \<le> k"
    using that assms(1) by (intro float_line_in_range) simp
  from assms(3) consider "k = 0" | "k = 1" | "k = 2" | "k = 4" by auto
  then show ?thesis
  proof cases
    case 1
    with k show ?thesis by (simp add: read_config_def)
  next
    case 2
    with k i [of 0] show ?thesis by (auto simp: read_config_def)
  next
    case 3
    with k i [of 0] i [of 1] show ?thesis by (auto simp: read_config_def)
  next
    case 4
    with k i [of 0] i [of 1] i [of 2] f show ?thesis by (auto simp: read_config_def)
  qed
qed

lemma read_config_pair_ValueError:
  assumes "k < length lines" "py_int (lines ! k) = None"
    and "py_int (lines ! 4) = Some n" "5 \<le> k" "int k < 5 + 2 * n"
  shows "read_config to_float lines = Inl ValueError"
proof -
  have i: "int_line lines j = Inl ValueError \<or> (\<exists>n. int_line lines j = Inr n)" if "j \<le> 4" for j
    using that assms(1,4) by (intro int_line_in_range) simp
  have f: "float_line to_float lines 3 = Inl ValueError \<or>
      (\<exists>x. float_line to_float lines 3 = Inr x)"
    using assms(1,4) by (intro float_line_in_range) simp
  have n: "int_line lines 4 = Inr n"
    using assms(1,3,4) by (simp add: int_line_Inr)
  have "read_variables lines (range_pairs n) = Inl ValueError"
    using sorted_range_pairs assms(1,2) range_pairs_covers [OF assms(4,5)]
    by (rule read_variables_ValueError)
  with n i [of 0] i [of 1] i [of 2] f show ?thesis
    by (auto simp: read_config_def)
qed









lemma py_int_samples: "py_int ''300.5\<newline>'' = None" "py_int ''300\<newline>'' = Some 300"
  "py_int ''2400.5\<newline>'' = None"
  by code_simp+

lemma float_of_decimal_sample: "float_of_decimal ''2400.5\<newline>'' = Some 2400.5"
proof -
  have s: "strip ''2400.5\<newline>'' = ''2400.5''"
    by code_simp
  have d: "digits 0 False ''2400'' = Some 2400" "digits 0 False ''5'' = Some 5"
    "digit_count ''5'' = 1"
    by code_simp+
  show ?thesis
    by (simp add: float_of_decimal_def s unsigned_decimal_def d del: digits.simps)
qed

lemma good_lines_values:
  "int_line good_lines 0 = Inr 20" "int_line good_lines 1 = Inr 15"
  "int_line good_lines 2 = Inr 2000" "int_line good_lines 4 = Inr 1"
  "int_line good_lines 5 = Inr 300" "int_line good_lines 6 = Inr 18"
  unfolding good_lines_def by code_simp+

lemma float_line_good: "float_line float_of_decimal good_lines 3 = Inr 2400.5"
  by (simp add: float_line_def item_def good_lines_def float_of_decimal_sample)

lemma range_pairs_1: "range_pairs 1 = [5]"
  by (simp add: range_pairs_def)

lemma read_good: "read_config float_of_decimal good_lines = Inr good_cfg"
  using good_lines_values float_line_good
  by (simp add: read_config_def range_pairs_1 good_cfg_def)

subsection \<open>Rounding to doubles\<close>













lemma bind_fl_Inl [simp]: "bind_fl (Inl h) f = Inl h"
  by (simp add: bind_fl_def)

lemma bind_fl_Inr [simp]: "bind_fl (Inr x) f = f x"
  by (simp add: bind_fl_def)
























section \<open>The specification's claims\<close>

text \<open>
  C1 (as amended). On the sample input of the script (buildings of 20 and 15, 2000 apart,
  2400 MHz, obstructions (300,18), (600,19), (1200,21), (1600,22)) the wavelength is
  0.125; the obstruction at 1600 has radius \<open>sqrt (0.125*1600*400/2000) = sqrt 40\<close>,
  about 6.3246, and the largest LOS candidate \<open>22 - 20 + 0.6 * sqrt 40\<close>; the LOS height
  of antenna A is that candidate, 5.7947 to four decimals; and the near-LOS height of
  antenna B is \<open>20 - 15\<close> plus that of antenna A.
\<close>

theorem worked_example:
  "waveLength (transmissionFrequency example_cfg * 1000000) = Inr 0.125 \<and>
   radius 0.125 1600 (distanceBtw example_cfg - 1600) = Inr (sqrt 40) \<and>
   \<bar>sqrt 40 - 6.3246\<bar> < 0.00005 \<and>
   compute example_cfg = Inr example_towers \<and>
   LOStowerAs example_towers ! 3 = 22 - 20 + 0.6 * sqrt 40 \<and>
   LOStowerAs example_towers ! 0 < LOStowerAs example_towers ! 3 \<and>
   LOStowerAs example_towers ! 1 < LOStowerAs example_towers ! 3 \<and>
   LOStowerAs example_towers ! 2 < LOStowerAs example_towers ! 3 \<and>
   LOStowerA example_towers = LOStowerAs example_towers ! 3 \<and>
   \<bar>LOStowerA example_towers - 5.7947\<bar> < 0.00005 \<and>
   nearLOStowerB example_towers = 20 - 15 + nearLOStowerA example_towers"
proof -
  have "\<bar>sqrt 40 - 6.3246\<bar> < 0.00005"
    using sqrt_40_bounds by simp
  moreover have "LOStowerAs example_towers ! 0 < LOStowerAs example_towers ! 3"
    "LOStowerAs example_towers ! 1 < LOStowerAs example_towers ! 3"
    "LOStowerAs example_towers ! 2 < LOStowerAs example_towers ! 3"
    using sqrt_40_bounds sqrt_others by (simp_all add: example_towers_def)
  moreover have "\<bar>LOStowerA example_towers - 5.7947\<bar> < 0.00005"
    using sqrt_40_bounds by (simp add: example_towers_def)
  moreover have "LOStowerAs example_towers ! 3 = 22 - 20 + 0.6 * sqrt 40"
    "LOStowerA example_towers = LOStowerAs example_towers ! 3"
    "nearLOStowerB example_towers = 20 - 15 + nearLOStowerA example_towers"
    by (simp_all add: example_towers_def)
  moreover have "waveLength (transmissionFrequency example_cfg * 1000000) = Inr 0.125"
    "radius 0.125 1600 (distanceBtw example_cfg - 1600) = Inr (sqrt 40)"
    using waveLength_example radius_example by simp_all
  ultimately show ?thesis
    using compute_example by blast
qed

theorem worked_example_spec_value_refuted:
  "compute example_cfg = Inr example_towers \<and>
   \<not> \<bar>LOStowerA example_towers - 7.3665\<bar> < 0.00005 \<and>
   radius 0.125 1600 (distanceBtw example_cfg - 1600) = Inr (sqrt 40) \<and>
   \<not> \<bar>sqrt 40 - 8.944\<bar> < 0.0005"
proof -
  have "\<not> \<bar>LOStowerA example_towers - 7.3665\<bar> < 0.00005"
    using sqrt_40_bounds by (simp add: example_towers_def)
  moreover have "\<not> \<bar>sqrt 40 - 8.944\<bar> < 0.0005"
    using sqrt_40_bounds by simp
  moreover have "radius 0.125 1600 (distanceBtw example_cfg - 1600) = Inr (sqrt 40)"
    using radius_example by simp
  ultimately show ?thesis
    using compute_example by blast
qed




text \<open>
  C5. Whenever the heights are computed, the near-LOS height of antenna A is at most its
  LOS height; and they are computed on every input that meets the data model's invariant.
\<close>

theorem near_le_los:
  "(compute cfg = Inr t \<longrightarrow> nearLOStowerA t \<le> LOStowerA t)
   \<and> (valid_config cfg \<longrightarrow> (\<exists>t. compute cfg = Inr t))"
  using compute_succeeds [of cfg] compute_order [of cfg t] by blast

theorem near_le_los_witness:
  "valid_config example_cfg \<and> compute example_cfg = Inr example_towers \<and>
   nearLOStowerA example_towers \<le> LOStowerA example_towers"
  using near_le_los [of example_cfg example_towers] compute_example valid_example by simp

text \<open>
  C6. On every input that meets the data model's invariant the heights are computed, and
  whenever they are computed the LOS and the near-LOS height of antenna A are not negative.
\<close>

theorem heights_nonneg:
  "(valid_config cfg \<longrightarrow> (\<exists>t. compute cfg = Inr t))
   \<and> (compute cfg = Inr t \<longrightarrow> 0 \<le> LOStowerA t \<and> 0 \<le> nearLOStowerA t)"
  using compute_succeeds [of cfg] compute_nonneg [of cfg t] by blast

theorem heights_nonneg_witness:
  "valid_config example_cfg \<and> compute example_cfg = Inr example_towers \<and>
   0 \<le> LOStowerA example_towers \<and> 0 \<le> nearLOStowerA example_towers"
  using heights_nonneg [of example_cfg example_towers] compute_example valid_example by simp

text \<open>
  C2 (as amended). Whenever the heights are computed, the LOS gap of every obstruction,
  \<open>LOStowerAs[i] - LOStowerA\<close>, is at most 0; and some obstruction has gap 0 exactly when
  some LOS candidate is not negative. (When every candidate is negative the height is
  the seed 0 of the running maximum and every gap is negative.)
\<close>

theorem gap_sign:
  "(compute cfg = Inr t \<longrightarrow>
      (\<forall>i \<in> set (range0 (noOfBuilding cfg)).
          \<exists>g. gap (LOStowerAs t) (LOStowerA t) i = Inr g \<and> g \<le> 0) \<and>
      ((\<exists>i \<in> set (range0 (noOfBuilding cfg)). gap (LOStowerAs t) (LOStowerA t) i = Inr 0) \<longleftrightarrow>
       (\<exists>i \<in> set (range0 (noOfBuilding cfg)). \<exists>c. item (LOStowerAs t) i = Inr c \<and> 0 \<le> c)))
   \<and> (valid_config cfg \<longrightarrow> (\<exists>t. compute cfg = Inr t))"
proof (intro conjI impI)
  assume c: "compute cfg = Inr t"
  let ?xs = "LOStowerAs t" and ?m = "LOStowerA t" and ?is = "range0 (noOfBuilding cfg)"
  from compute_length [OF c] have len: "length ?xs = nat (noOfBuilding cfg)" ..
  then have idx: "i \<in> set ?is \<longleftrightarrow> i < length ?xs" for i
    by (simp add: range0_def)
  from compute_upper [OF c] have upper: "?xs ! i \<le> ?m" if "i < length ?xs" for i
    using that by simp
  show "\<forall>i \<in> set ?is. \<exists>g. gap ?xs ?m i = Inr g \<and> g \<le> 0"
    using upper by (simp add: idx gap_Inr)
  show "(\<exists>i \<in> set ?is. gap ?xs ?m i = Inr 0) \<longleftrightarrow>
        (\<exists>i \<in> set ?is. \<exists>c. item ?xs i = Inr c \<and> 0 \<le> c)"
  proof
    assume "\<exists>i \<in> set ?is. gap ?xs ?m i = Inr 0"
    then obtain i where i: "i < length ?xs" and "gap ?xs ?m i = Inr 0"
      by (auto simp: idx)
    then have "?xs ! i = ?m" by (simp add: gap_Inr)
    with compute_nonneg [OF c] have "0 \<le> ?xs ! i" by simp
    with i show "\<exists>i \<in> set ?is. \<exists>c. item ?xs i = Inr c \<and> 0 \<le> c"
      by (auto simp: idx item_def)
  next
    assume "\<exists>i \<in> set ?is. \<exists>c. item ?xs i = Inr c \<and> 0 \<le> c"
    then obtain i where i: "i < length ?xs" and pos: "0 \<le> ?xs ! i"
      by (auto simp: idx item_def split: if_splits)
    from compute_attained [OF c] consider "?m = 0" | "?m \<in> set ?xs"
      by auto
    then show "\<exists>i \<in> set ?is. gap ?xs ?m i = Inr 0"
    proof cases
      case 1
      with upper [OF i] pos have "?xs ! i = ?m" by simp
      with i show ?thesis by (auto simp: idx gap_Inr)
    next
      case 2
      then obtain j where "j < length ?xs" "?xs ! j = ?m"
        by (auto simp: in_set_conv_nth)
      then show ?thesis by (auto simp: idx gap_Inr)
    qed
  qed
next
  assume "valid_config cfg"
  then show "\<exists>t. compute cfg = Inr t" by (rule compute_succeeds)
qed

theorem gap_sign_witness:
  "valid_config example_cfg \<and> compute example_cfg = Inr example_towers \<and>
   (\<exists>g. gap (LOStowerAs example_towers) (LOStowerA example_towers) 2 = Inr g \<and> g \<le> 0) \<and>
   (\<exists>i \<in> set (range0 (noOfBuilding example_cfg)).
      gap (LOStowerAs example_towers) (LOStowerA example_towers) i = Inr 0)"
proof -
  have n: "range0 (noOfBuilding example_cfg) = [0, 1, 2, 3]"
    by (simp add: example_cfg_def range0_4)
  have "item (LOStowerAs example_towers) 3 = Inr (2 + 0.6 * sqrt 40)" "0 \<le> 2 + 0.6 * sqrt 40"
    by (simp_all add: example_towers_def item_def)
  then have "\<exists>i \<in> set (range0 (noOfBuilding example_cfg)).
      \<exists>c. item (LOStowerAs example_towers) i = Inr c \<and> 0 \<le> c"
    unfolding n by (intro bexI [of _ 3] exI [of _ "2 + 0.6 * sqrt 40"]) simp_all
  moreover have "2 \<in> set (range0 (noOfBuilding example_cfg))"
    unfolding n by simp
  ultimately show ?thesis
    using gap_sign [of example_cfg example_towers] compute_example valid_example by blast
qed

theorem gap_sign_all_negative:
  "compute low_cfg = Inr low_towers \<and>
   range0 (noOfBuilding low_cfg) = [0] \<and>
   gap (LOStowerAs low_towers) (LOStowerA low_towers) 0 = Inr (- 10 + 0.6 * sqrt (125 / 2)) \<and>
   - 10 + 0.6 * sqrt (125 / 2) < 0"
proof -
  have "range0 (noOfBuilding low_cfg) = [0]"
    by (simp add: low_cfg_def range0_1)
  moreover have "gap (LOStowerAs low_towers) (LOStowerA low_towers) 0
      = Inr (- 10 + 0.6 * sqrt (125 / 2))"
    by (simp add: gap_def item_def low_towers_def)
  moreover have "- 10 + 0.6 * sqrt (125 / 2) < 0"
    using sqrt_125_2 by simp
  ultimately show ?thesis
    using compute_low by blast
qed




text \<open>
  C7. When a run ends without an exception, it has printed exactly one number, the path
  loss \<open>92.5 + 20*log10((freqHz * pathDistance / 1e9) / 1000)\<close> with
  \<open>freqHz = frequencyMHz * 1e6\<close>, and \<open>output.txt\<close> holds the report of the heights and
  gaps, which has no place for the path loss; a run that ends with an exception has
  printed nothing. A run ends without an exception on every input that meets the data
  model's invariant and has a positive path distance.
\<close>

theorem path_loss_printed:
  "(raised (run_config cfg) = None \<longrightarrow>
      console (run_config cfg) =
        [92.5 + 20 * log 10 ((transmissionFrequency cfg * 1000000 * real_of_int (distanceBtw cfg)
                                / 1000000000) / 1000)] \<and>
      (\<exists>t. compute cfg = Inr t \<and> output_txt (run_config cfg) = Some (report t)))
   \<and> (raised (run_config cfg) \<noteq> None \<longrightarrow> console (run_config cfg) = [])
   \<and> (valid_config cfg \<and> 0 < distanceBtw cfg \<longrightarrow> raised (run_config cfg) = None)"
proof (intro conjI impI)
  assume ok: "raised (run_config cfg) = None"
  then obtain t where t: "compute cfg = Inr t"
    by (cases "compute cfg") (simp_all add: run_config_def failed_def)
  from ok attenuation_cases [of cfg] have a: "attenuation cfg = Inr (path_loss cfg)"
    by (auto simp: run_config_Inr [OF t])
  then show "console (run_config cfg) =
      [92.5 + 20 * log 10 ((transmissionFrequency cfg * 1000000 * real_of_int (distanceBtw cfg)
                              / 1000000000) / 1000)]"
    by (simp add: run_config_Inr [OF t] path_loss_def)
  from a t show "\<exists>t. compute cfg = Inr t \<and> output_txt (run_config cfg) = Some (report t)"
    by (simp add: run_config_Inr [OF t])
next
  assume bad: "raised (run_config cfg) \<noteq> None"
  show "console (run_config cfg) = []"
  proof (cases "compute cfg")
    case (Inl e)
    then show ?thesis by (simp add: run_config_def failed_def)
  next
    case (Inr t)
    with bad show ?thesis
      by (cases "attenuation cfg") (simp_all add: run_config_Inr [OF Inr])
  qed
next
  assume v: "valid_config cfg \<and> 0 < distanceBtw cfg"
  then obtain t where t: "compute cfg = Inr t"
    using compute_succeeds by blast
  from v have "attenuation cfg = Inr (path_loss cfg)"
    by (intro attenuation_succeeds) (simp_all add: valid_config_def)
  then show "raised (run_config cfg) = None"
    by (simp add: run_config_Inr [OF t])
qed

theorem path_loss_printed_witness:
  "valid_config example_cfg \<and> 0 < distanceBtw example_cfg \<and>
   raised (run_config example_cfg) = None \<and>
   console (run_config example_cfg) = [92.5 + 20 * log 10 4.8] \<and>
   output_txt (run_config example_cfg) = Some (report example_towers)"
proof -
  have d: "0 < distanceBtw example_cfg"
    and f: "transmissionFrequency example_cfg = 2400" "distanceBtw example_cfg = 2000"
    by (simp_all add: example_cfg_def)
  from path_loss_printed [of example_cfg] valid_example d compute_example
  show ?thesis by (auto simp: f)
qed

text \<open>
  C9 (as amended). If the five header lines are well formed, the obstruction count is 0
  and frequency times path distance is positive, the run ends without an exception:
  the LOS and near-LOS heights of antenna A are 0, those of antenna B are
  \<open>buildingA - buildingB\<close>, and \<open>output.txt\<close> holds the two blocks with nothing
  between a \<open>GAP for each building\<close> line and the line break that follows it.
\<close>

theorem no_obstructions:
  assumes "int_line lines 0 = Inr a" "int_line lines 1 = Inr b" "int_line lines 2 = Inr d"
    and "float_line to_float lines 3 = Inr f" "int_line lines 4 = Inr 0"
    and "0 < f * real_of_int d"
  shows "read_config to_float lines =
           Inr \<lparr>buildingA = a, buildingB = b, distanceBtw = d, transmissionFrequency = f,
                noOfBuilding = 0, variables = []\<rparr> \<and>
         compute \<lparr>buildingA = a, buildingB = b, distanceBtw = d, transmissionFrequency = f,
                  noOfBuilding = 0, variables = []\<rparr> =
           Inr \<lparr>LOStowerA = 0, LOStowerAs = [], nearLOStowerA = 0, nearLOStowerAs = [],
                LOStowerB = real_of_int (a - b), nearLOStowerB = real_of_int (a - b)\<rparr> \<and>
         raised (run to_float lines) = None \<and>
         output_txt (run to_float lines) =
           Some (los_part (no_obstruction_towers a b) @
                 near_part (no_obstruction_towers a b) @ [Text ''\<newline>''])"
proof -
  let ?cfg = "\<lparr>buildingA = a, buildingB = b, distanceBtw = d, transmissionFrequency = f,
                noOfBuilding = 0, variables = []\<rparr>"
  have r: "read_config to_float lines = Inr ?cfg"
    using assms(1-5) by (rule read_config_no_obstruction)
  from assms(6) have "f \<noteq> 0" by auto
  then have c: "compute ?cfg = Inr (no_obstruction_towers a b)"
    using compute_no_obstruction [of ?cfg] by simp
  from assms(6) have "attenuation ?cfg = Inr (path_loss ?cfg)"
    by (simp add: attenuation_def path_loss_def Let_def not_le mult.commute mult.left_commute)
  then have "run_config ?cfg =
      \<lparr>raised = None, output_txt = Some (report (no_obstruction_towers a b)),
       console = [path_loss ?cfg]\<rparr>"
    by (simp add: run_config_Inr [OF c])
  then have "raised (run to_float lines) = None"
    "output_txt (run to_float lines) = Some (report (no_obstruction_towers a b))"
    by (simp_all add: run_def r)
  with r c show ?thesis
    by (simp add: report_no_obstruction) (simp add: no_obstruction_towers_def)
qed

theorem no_obstructions_witness:
  "int_line [''20'', ''15'', ''2000'', ''2400'', ''0''] 0 = Inr 20 \<and>
   int_line [''20'', ''15'', ''2000'', ''2400'', ''0''] 1 = Inr 15 \<and>
   int_line [''20'', ''15'', ''2000'', ''2400'', ''0''] 2 = Inr 2000 \<and>
   float_line float_of_int_literal [''20'', ''15'', ''2000'', ''2400'', ''0''] 3 = Inr 2400 \<and>
   int_line [''20'', ''15'', ''2000'', ''2400'', ''0''] 4 = Inr 0 \<and>
   (0::real) < 2400 * real_of_int 2000 \<and>
   raised (run float_of_int_literal [''20'', ''15'', ''2000'', ''2400'', ''0'']) = None \<and>
   output_txt (run float_of_int_literal [''20'', ''15'', ''2000'', ''2400'', ''0'']) =
     Some (los_part (no_obstruction_towers 20 15) @
           near_part (no_obstruction_towers 20 15) @ [Text ''\<newline>''])"
proof -
  let ?lines = "[''20'', ''15'', ''2000'', ''2400'', ''0'']"
  have l: "int_line ?lines 0 = Inr 20" "int_line ?lines 1 = Inr 15" "int_line ?lines 2 = Inr 2000"
    "float_line float_of_int_literal ?lines 3 = Inr 2400" "int_line ?lines 4 = Inr 0"
    by code_simp+
  have p: "(0::real) < 2400 * real_of_int 2000" by simp
  from no_obstructions [OF l p] l p show ?thesis by simp
qed

theorem no_obstructions_failures:
  "int_line [''20'', ''15'', ''2000'', ''0'', ''0''] 4 = Inr 0 \<and>
   run float_of_int_literal [''20'', ''15'', ''2000'', ''0'', ''0''] = failed ZeroDivisionError \<and>
   int_line [''20'', ''15'', ''0'', ''2400'', ''0''] 4 = Inr 0 \<and>
   raised (run float_of_int_literal [''20'', ''15'', ''0'', ''2400'', ''0'']) = Some ValueError"
proof -
  let ?l1 = "[''20'', ''15'', ''2000'', ''0'', ''0'']" and ?l2 = "[''20'', ''15'', ''0'', ''2400'', ''0'']"
  have l1: "int_line ?l1 0 = Inr 20" "int_line ?l1 1 = Inr 15" "int_line ?l1 2 = Inr 2000"
    "float_line float_of_int_literal ?l1 3 = Inr 0" "int_line ?l1 4 = Inr 0"
    by code_simp+
  have l2: "int_line ?l2 0 = Inr 20" "int_line ?l2 1 = Inr 15" "int_line ?l2 2 = Inr 0"
    "float_line float_of_int_literal ?l2 3 = Inr 2400" "int_line ?l2 4 = Inr 0"
    by code_simp+
  have "run float_of_int_literal ?l1 = failed ZeroDivisionError"
    by (simp add: run_def read_config_no_obstruction [OF l1] run_config_def compute_def
        waveLength_def)
  moreover have "raised (run float_of_int_literal ?l2) = Some ValueError"
    by (simp add: run_def read_config_no_obstruction [OF l2] run_config_Inr
        compute_no_obstruction attenuation_def)
  ultimately show ?thesis using l1(5) l2(5) by simp
qed

text \<open>
  C10. When the input is read, the two building heights, the path distance, the
  obstruction count and both numbers of every obstruction are what \<open>int\<close> makes of
  their lines, and the frequency, and only it, is what \<open>float\<close> makes of its line. If
  one of the lines that \<open>int\<close> reads is present and is not an integer numeral, as
  \<open>300.5\<close> is not, the run ends with \<open>ValueError\<close>, \<open>output.txt\<close> has not been opened
  and nothing has been printed.
\<close>

theorem integer_lines:
  "(read_config to_float lines = Inr cfg \<longrightarrow>
      4 < length lines \<and>
      py_int (lines ! 0) = Some (buildingA cfg) \<and>
      py_int (lines ! 1) = Some (buildingB cfg) \<and>
      py_int (lines ! 2) = Some (distanceBtw cfg) \<and>
      to_float (lines ! 3) = Some (transmissionFrequency cfg) \<and>
      py_int (lines ! 4) = Some (noOfBuilding cfg) \<and>
      length (variables cfg) = nat (noOfBuilding cfg) \<and>
      (\<forall>j < nat (noOfBuilding cfg).
         5 + 2 * j + 1 < length lines \<and>
         py_int (lines ! (5 + 2 * j)) = Some (D1 (variables cfg ! j)) \<and>
         py_int (lines ! (5 + 2 * j + 1)) = Some (Height (variables cfg ! j))))
   \<and> (k < length lines \<and> py_int (lines ! k) = None \<and>
        (k \<in> {0, 1, 2, 4} \<or> (\<exists>n. py_int (lines ! 4) = Some n \<and> 5 \<le> k \<and> int k < 5 + 2 * n)) \<longrightarrow>
        run to_float lines = \<lparr>raised = Some ValueError, output_txt = None, console = []\<rparr>)
   \<and> py_int ''300.5\<newline>'' = None \<and> py_int ''300\<newline>'' = Some 300"
proof (intro conjI impI)
  assume r: "read_config to_float lines = Inr cfg"
  note h = read_config_Inr [OF r]
  from h(5) show "4 < length lines" by (simp add: int_line_Inr)
  from h(1) show "py_int (lines ! 0) = Some (buildingA cfg)" by (simp add: int_line_Inr)
  from h(2) show "py_int (lines ! 1) = Some (buildingB cfg)" by (simp add: int_line_Inr)
  from h(3) show "py_int (lines ! 2) = Some (distanceBtw cfg)" by (simp add: int_line_Inr)
  from h(4) show "to_float (lines ! 3) = Some (transmissionFrequency cfg)"
    by (simp add: float_line_Inr)
  from h(5) show "py_int (lines ! 4) = Some (noOfBuilding cfg)" by (simp add: int_line_Inr)
  from read_variables_Inr [OF h(6)]
  show "length (variables cfg) = nat (noOfBuilding cfg)"
    and "\<forall>j < nat (noOfBuilding cfg).
         5 + 2 * j + 1 < length lines \<and>
         py_int (lines ! (5 + 2 * j)) = Some (D1 (variables cfg ! j)) \<and>
         py_int (lines ! (5 + 2 * j + 1)) = Some (Height (variables cfg ! j))"
    by (simp_all add: range_pairs_def int_line_Inr)
next
  assume "k < length lines \<and> py_int (lines ! k) = None \<and>
        (k \<in> {0, 1, 2, 4} \<or> (\<exists>n. py_int (lines ! 4) = Some n \<and> 5 \<le> k \<and> int k < 5 + 2 * n))"
  then have "read_config to_float lines = Inl ValueError"
    using read_config_header_ValueError [of k lines to_float]
      read_config_pair_ValueError [of k lines _ to_float]
    by blast
  then show "run to_float lines = \<lparr>raised = Some ValueError, output_txt = None, console = []\<rparr>"
    by (simp add: run_def failed_def)
next
  show "py_int ''300.5\<newline>'' = None" "py_int ''300\<newline>'' = Some 300"
    by (rule py_int_samples)+
qed

theorem integer_lines_witness:
  "read_config float_of_decimal good_lines = Inr good_cfg \<and>
   good_lines ! 3 = ''2400.5\<newline>'' \<and>
   py_int (good_lines ! 3) = None \<and>
   float_of_decimal (good_lines ! 3) = Some 2400.5 \<and>
   transmissionFrequency good_cfg = 2400.5 \<and>
   py_int (good_lines ! 0) = Some 20 \<and> py_int (good_lines ! 4) = Some 1 \<and>
   py_int (good_lines ! 5) = Some 300 \<and> py_int (good_lines ! 6) = Some 18 \<and>
   5 < length bad_lines \<and> bad_lines ! 5 = ''300.5\<newline>'' \<and> py_int (bad_lines ! 5) = None \<and>
   py_int (bad_lines ! 4) = Some 1 \<and>
   run float_of_decimal bad_lines = \<lparr>raised = Some ValueError, output_txt = None, console = []\<rparr>"
proof -
  have g: "buildingA good_cfg = 20" "noOfBuilding good_cfg = 1"
    "transmissionFrequency good_cfg = 2400.5"
    "D1 (variables good_cfg ! 0) = 300" "Height (variables good_cfg ! 0) = 18"
    by (simp_all add: good_cfg_def)
  have l3: "good_lines ! 3 = ''2400.5\<newline>''"
    by (simp add: good_lines_def)
  then have n3: "py_int (good_lines ! 3) = None"
    by (simp add: py_int_samples)
  have b: "5 < length bad_lines" "bad_lines ! 5 = ''300.5\<newline>''"
    by (simp_all add: bad_lines_def)
  have b4: "py_int (bad_lines ! 4) = Some 1"
    unfolding bad_lines_def by code_simp
  from b(2) have n: "py_int (bad_lines ! 5) = None" by (simp add: py_int_samples)
  from integer_lines [of float_of_decimal good_lines good_cfg] read_good g
  have "float_of_decimal (good_lines ! 3) = Some 2400.5"
    "py_int (good_lines ! 0) = Some 20" "py_int (good_lines ! 4) = Some 1"
    "py_int (good_lines ! 5) = Some 300" "py_int (good_lines ! 6) = Some 18"
    by simp_all
  moreover from integer_lines [of float_of_decimal bad_lines _ 5] b b4 n
  have "run float_of_decimal bad_lines = \<lparr>raised = Some ValueError, output_txt = None, console = []\<rparr>"
    by simp
  ultimately show ?thesis using read_good g(3) l3 n3 b b4 n by simp
qed

end
